theory Spec2Isabelle
  imports Main "HOL-Library.Word"
begin

unbundle bit_operations_syntax

section \<open>The endpoint \<open>Rpc<Transport_>\<close> of \<open>src/rpc_impl/rpc.cc\<close>\<close>

text \<open>
  A shallow embedding of the member functions of \<open>Rpc<Transport_>\<close>. A call either
  returns, throws a C++ exception, aborts on a failed \<open>assert\<close>, or has undefined
  behaviour (a dereference of a pointer to a deleted object). Calls on the objects the
  endpoint owns or shares are recorded, in order, in a trace of events.
\<close>

subsection \<open>Outcomes\<close>

datatype exn =
    runtime_error string
  | invalid_argument string
  | out_of_range

datatype 'a outcome =
    Returns 'a
  | Throws exn
  | Fatal
  | Undefined

type_synonym u8 = "8 word"
type_synonym u32 = "32 word"
type_synonym u64 = "64 word"
type_synonym size_t = "64 word"

subsection \<open>Constants of the headers\<close>

text \<open>
  \<open>kInvalidAppTid\<close>, \<open>kMaxPhyPorts\<close>, \<open>kMaxNumaNodes\<close>, \<open>kInitialHugeAllocSize\<close> and
  \<open>kStartSeqMask\<close> are declared in headers; the functions take them as a parameter.
  The two bounds are compared with unsigned arguments, so they are natural numbers here.
\<close>

record constants =
  kInvalidAppTid :: u8
  kMaxPhyPorts :: nat
  kMaxNumaNodes :: nat
  kInitialHugeAllocSize :: nat
  kStartSeqMask :: u64

subsection \<open>Sessions and session-management packets\<close>

datatype Role = kClient | kServer

text \<open>The identity block \<open>client\<close> / \<open>server\<close> of a session or of a packet.\<close>

record SessionMetadata =
  hostname :: string
  app_tid :: u8
  session_num :: u32

text \<open>
  Modelled from the spec: the class \<open>Session\<close> is declared in a header. It has a role
  tag, the two identity blocks, and the liveness flag "in-flight" that
  \<open>is_in_flight\<close> reports.
\<close>

record Session =
  role :: Role
  client :: SessionMetadata
  server :: SessionMetadata
  in_flight :: bool

text \<open>
  The enumerators the \<open>switch\<close> of \<open>handle_session_management\<close> names, and one more
  value for every other bit pattern of the enumeration (the \<open>default\<close> branch).
\<close>

datatype SessionMgmtPktType =
    kConnectReq
  | kConnectResp
  | kDisconnectReq
  | kDisconnectResp
  | kOtherPktType nat

record SessionMgmtPkt =
  pkt_type :: SessionMgmtPktType
  pkt_client :: SessionMetadata
  pkt_server :: SessionMetadata

text \<open>
  Modelled from the spec: \<open>session_mgmt_is_pkt_type_req\<close> is defined in a header; the
  requests are ConnectReq and DisconnectReq, every other kind is not a request.
\<close>

fun session_mgmt_is_pkt_type_req :: "SessionMgmtPktType \<Rightarrow> bool" where
  "session_mgmt_is_pkt_type_req kConnectReq = True"
| "session_mgmt_is_pkt_type_req kDisconnectReq = True"
| "session_mgmt_is_pkt_type_req kConnectResp = False"
| "session_mgmt_is_pkt_type_req kDisconnectResp = False"
| "session_mgmt_is_pkt_type_req (kOtherPktType n) = False"

text \<open>
  A \<open>Session *\<close> is \<open>None\<close> (the null pointer) or an address; the session objects live
  in a store from addresses to sessions, and \<open>delete\<close> removes an address from it.
\<close>

type_synonym session_ptr = "nat option"
type_synonym session_heap = "nat \<Rightarrow> Session option"

subsection \<open>The hook, the directory, the allocator and the transport\<close>

text \<open>
  The hook \<open>sm_hook\<close>: its application-thread id, its event counter and its list of
  pending packets. Its mutex appears as the events \<open>MutexLock\<close> and \<open>MutexUnlock\<close>.
\<close>

record SessionMgmtHook =
  hook_app_tid :: u8
  session_mgmt_ev_counter :: nat
  session_mgmt_pkt_list :: "SessionMgmtPkt list"

text \<open>
  Modelled from the spec: the class \<open>Nexus\<close> is not in this file. The directory has a
  host name and the application-thread ids of the hooks registered with it;
  \<open>app_tid_exists\<close> tells whether an id is registered and \<open>register_hook\<close> registers
  a hook.
\<close>

record Nexus =
  nexus_hostname :: string
  reg_hooks :: "u8 list"

definition app_tid_exists :: "Nexus \<Rightarrow> u8 \<Rightarrow> bool" where
  "app_tid_exists nx t = (t \<in> set (reg_hooks nx))"

definition register_hook :: "Nexus \<Rightarrow> SessionMgmtHook \<Rightarrow> Nexus" where
  "register_hook nx hook = nx\<lparr>reg_hooks := reg_hooks nx @ [hook_app_tid hook]\<rparr>"

datatype event =
    NewTransport u8 u8
  | NewHugeAllocator nat size_t
  | InitHugepageStructures
  | DeregMr nat
  | DeleteHugeAllocator
  | DeleteTransport
  | RegisterHook u8
  | MutexLock
  | MutexUnlock
  | Dispatch SessionMgmtPkt
  | FreePkt SessionMgmtPkt

text \<open>
  Modelled from the spec: the class \<open>HugeAllocator\<close> is not in this file. It is created
  with an initial size and a NUMA node and owns the chunks it has registered; its
  destructor deregisters every chunk it still owns with the deregistration function of
  the transport and owns none afterwards.
\<close>

record HugeAllocator =
  alloc_size :: nat
  alloc_numa_node :: size_t
  chunks :: "nat list"

definition HugeAllocator_new :: "nat \<Rightarrow> size_t \<Rightarrow> HugeAllocator" where
  "HugeAllocator_new sz numa = \<lparr>alloc_size = sz, alloc_numa_node = numa, chunks = []\<rparr>"

definition HugeAllocator_delete :: "HugeAllocator \<Rightarrow> event list \<times> HugeAllocator" where
  "HugeAllocator_delete ha =
     (map DeregMr (chunks ha) @ [DeleteHugeAllocator], ha\<lparr>chunks := []\<rparr>)"

text \<open>
  \<open>Transport_\<close> is the template parameter. An object of it is built from the
  application-thread id and the port; \<open>init_hugepage_structures\<close> is a parameter of the
  model: it may take chunks from the allocator, and it returns or throws.
\<close>

record Transport =
  transport_app_tid :: u8
  transport_phy_port :: u8

definition Transport_new :: "u8 \<Rightarrow> u8 \<Rightarrow> Transport" where
  "Transport_new t p = \<lparr>transport_app_tid = t, transport_phy_port = p\<rparr>"

type_synonym init_hugepage_structures =
  "Transport \<Rightarrow> HugeAllocator \<Rightarrow> exn option \<times> HugeAllocator"

text \<open>
  Modelled from the spec: the class of \<open>slow_rand\<close> is not in this file. The private
  random source is a sequence of 64-bit values and a position in it.
\<close>

record SlowRand =
  draws :: "nat \<Rightarrow> u64"
  drawn :: nat

definition next_u64 :: "SlowRand \<Rightarrow> u64 \<times> SlowRand" where
  "next_u64 sr = (draws sr (drawn sr), sr\<lparr>drawn := Suc (drawn sr)\<rparr>)"

subsection \<open>The endpoint\<close>

record Rpc =
  rpc_context :: nat
  rpc_app_tid :: u8
  session_mgmt_handler :: nat
  phy_port :: u8
  numa_node :: size_t
  transport :: Transport
  huge_alloc :: HugeAllocator
  session_vec :: "session_ptr list"
  sm_hook :: SessionMgmtHook
  slow_rand :: SlowRand

subsection \<open>Construction\<close>

text \<open>
  The constructor. \<open>uid\<close> is what \<open>getuid()\<close> returns, \<open>nexus\<close> is \<open>None\<close> for the null
  pointer and otherwise the directory the pointer refers to, \<open>sr\<close> is the random source
  the member \<open>slow_rand\<close> starts as. It returns the trace of the calls it made and either
  the endpoint with the directory as \<open>register_hook\<close> left it, or the exception.
\<close>

definition Rpc_new ::
  "constants \<Rightarrow> init_hugepage_structures \<Rightarrow> u32 \<Rightarrow> SlowRand \<Rightarrow> Nexus option \<Rightarrow> nat \<Rightarrow> u8 \<Rightarrow>
     nat \<Rightarrow> u8 \<Rightarrow> size_t \<Rightarrow> event list \<times> (Rpc \<times> Nexus) outcome" where
  "Rpc_new K init uid sr nexus ctx tid handler port numa =
     (if uid \<noteq> 0 then
        ([], Throws (runtime_error ''eRPC Rpc: You need to be root to use eRPC''))
      else case nexus of
        None \<Rightarrow> ([], Throws (invalid_argument ''eRPC Rpc: Invalid nexus''))
      | Some nx \<Rightarrow>
          if tid = kInvalidAppTid K \<or> app_tid_exists nx tid then
            ([], Throws (invalid_argument ''eRPC Rpc: Invalid app_tid''))
          else if unat port \<ge> kMaxPhyPorts K then
            ([], Throws (invalid_argument ''eRPC Rpc: Invalid physical port''))
          else if unat numa \<ge> kMaxNumaNodes K then
            ([], Throws (invalid_argument ''eRPC Rpc: Invalid NUMA node''))
          else
            let tr = Transport_new tid port;
                ha = HugeAllocator_new (kInitialHugeAllocSize K) numa;
                calls = [NewTransport tid port,
                           NewHugeAllocator (kInitialHugeAllocSize K) numa,
                           InitHugepageStructures]
            in (case init tr ha of
                  (Some (runtime_error m), ha') \<Rightarrow>
                    (calls @ fst (HugeAllocator_delete ha'), Throws (runtime_error m))
                | (Some e, ha') \<Rightarrow> (calls, Throws e)
                | (None, ha') \<Rightarrow>
                    (let hook = \<lparr>hook_app_tid = tid, session_mgmt_ev_counter = 0,
                                 session_mgmt_pkt_list = []\<rparr>
                     in (calls @ [RegisterHook tid],
                         Returns
                           (\<lparr>rpc_context = ctx, rpc_app_tid = tid,
                             session_mgmt_handler = handler, phy_port = port,
                             numa_node = numa, transport = tr, huge_alloc = ha',
                             session_vec = [], sm_hook = hook, slow_rand = sr\<rparr>,
                            register_hook nx hook)))))"

text \<open>
  What a trace leaves alive: the number of transports after the events of the trace,
  read from its first event to its last, when there were \<open>n\<close> before it.
\<close>

fun transports_after :: "nat \<Rightarrow> event list \<Rightarrow> nat" where
  "transports_after n [] = n"
| "transports_after n (NewTransport t p # es) = transports_after (Suc n) es"
| "transports_after n (DeleteTransport # es) = transports_after (n - 1) es"
| "transports_after n (e # es) = transports_after n es"

definition live_transports :: "event list \<Rightarrow> nat" where
  "live_transports es = transports_after 0 es"

subsection \<open>Destruction\<close>

text \<open>\<open>_unused(session)\<close>: the macro evaluates its argument and does nothing.\<close>

definition unused :: "'a \<Rightarrow> 's \<Rightarrow> 's" where
  "unused x s = s"

text \<open>The loop of the destructor over \<open>session_vec\<close>.\<close>

fun session_loop :: "session_ptr list \<Rightarrow> session_heap \<Rightarrow> session_heap" where
  "session_loop [] h = h"
| "session_loop (session # rest) h =
     (if session \<noteq> None then session_loop rest (unused session h)
      else session_loop rest h)"

text \<open>
  The destructor: the calls it makes, in order, and the store of sessions it leaves.
\<close>

definition Rpc_delete :: "Rpc \<Rightarrow> session_heap \<Rightarrow> event list \<times> session_heap" where
  "Rpc_delete rpc h =
     (fst (HugeAllocator_delete (huge_alloc rpc)) @ [DeleteTransport],
      session_loop (session_vec rpc) h)"

subsection \<open>Sequence numbers\<close>

definition generate_start_seq :: "constants \<Rightarrow> Rpc \<Rightarrow> u64 \<times> Rpc" where
  "generate_start_seq K rpc =
     (let (rand, sr) = next_u64 (slow_rand rpc)
      in (rand AND kStartSeqMask K, rpc\<lparr>slow_rand := sr\<rparr>))"

subsection \<open>The session table\<close>

text \<open>
  \<open>std::find\<close> over a vector: the position of the first element equal to \<open>x\<close>, or the
  length of the vector (the end iterator).
\<close>

fun std_find :: "'a list \<Rightarrow> 'a \<Rightarrow> nat" where
  "std_find [] x = 0"
| "std_find (y # ys) x = (if y = x then 0 else Suc (std_find ys x))"

definition is_session_ptr_client :: "Rpc \<Rightarrow> session_heap \<Rightarrow> session_ptr \<Rightarrow> bool outcome" where
  "is_session_ptr_client rpc h session =
     (case session of
        None \<Rightarrow> Returns False
      | Some a \<Rightarrow>
          if std_find (session_vec rpc) session = length (session_vec rpc) then Returns False
          else (case h a of
                  None \<Rightarrow> Undefined
                | Some s \<Rightarrow> if role s \<noteq> kClient then Returns False else Returns True))"

definition is_session_ptr_server :: "Rpc \<Rightarrow> session_heap \<Rightarrow> session_ptr \<Rightarrow> bool outcome" where
  "is_session_ptr_server rpc h session =
     (case session of
        None \<Rightarrow> Returns False
      | Some a \<Rightarrow>
          if std_find (session_vec rpc) session = length (session_vec rpc) then Returns False
          else (case h a of
                  None \<Rightarrow> Undefined
                | Some s \<Rightarrow> if role s \<noteq> kServer then Returns False else Returns True))"

text \<open>
  Modelled from the spec: \<open>is_in_flight\<close> is not in this file; it reports the session's
  in-flight flag.
\<close>

definition is_in_flight :: "Session \<Rightarrow> bool" where
  "is_in_flight s = in_flight s"

text \<open>
  The last two statements of \<open>bury_session\<close>: \<open>session_vec.at(session_num) = nullptr\<close>,
  which throws \<open>std::out_of_range\<close> past the end of the vector (the message of the
  exception is the library's own and is not modelled), and \<open>delete session\<close>.
\<close>

definition clear_slot :: "Rpc \<Rightarrow> session_heap \<Rightarrow> nat \<Rightarrow> u32 \<Rightarrow> (Rpc \<times> session_heap) outcome" where
  "clear_slot rpc h a n =
     (if unat n < length (session_vec rpc) then
        Returns (rpc\<lparr>session_vec := (session_vec rpc)[unat n := None]\<rparr>, h(a := None))
      else Throws out_of_range)"

text \<open>An \<open>assert\<close> on the result of a call: it passes when the call returns true.\<close>

definition bury_session :: "Rpc \<Rightarrow> session_heap \<Rightarrow> session_ptr \<Rightarrow> (Rpc \<times> session_heap) outcome" where
  "bury_session rpc h session =
     (case session of
        None \<Rightarrow> Fatal
      | Some a \<Rightarrow>
          (case h a of
             None \<Rightarrow> Undefined
           | Some s \<Rightarrow>
               if role s = kClient then
                 (case is_session_ptr_client rpc h session of
                    Returns True \<Rightarrow>
                      if is_in_flight s then Fatal
                      else clear_slot rpc h a (session_num (client s))
                  | Returns False \<Rightarrow> Fatal
                  | Throws e \<Rightarrow> Throws e
                  | Fatal \<Rightarrow> Fatal
                  | Undefined \<Rightarrow> Undefined)
               else
                 (case is_session_ptr_server rpc h session of
                    Returns True \<Rightarrow> clear_slot rpc h a (session_num (server s))
                  | Returns False \<Rightarrow> Fatal
                  | Throws e \<Rightarrow> Throws e
                  | Fatal \<Rightarrow> Fatal
                  | Undefined \<Rightarrow> Undefined)))"

subsection \<open>Session management\<close>

text \<open>
  The four handlers are members of the endpoint defined in another file; the model takes
  them as parameters. A handler gets the packet, the endpoint and the store of sessions,
  and returns both, or fails. The loop runs over the list of the hook as it is when the
  loop begins: a handler is taken not to add packets to it or to remove packets from it
  (the directory, which appends, waits for the mutex).
\<close>

type_synonym sm_handler =
  "SessionMgmtPkt \<Rightarrow> Rpc \<times> session_heap \<Rightarrow> (Rpc \<times> session_heap) outcome"

record sm_handlers =
  handle_session_connect_req :: sm_handler
  handle_session_connect_resp :: sm_handler
  handle_session_disconnect_req :: sm_handler
  handle_session_disconnect_resp :: sm_handler

text \<open>
  The condition the two \<open>assert\<close>s at the head of the loop body negate: the identity
  block of the packet's sender (the client block of a request, the server block
  otherwise) names this endpoint's host and application thread.
\<close>

definition sender_is_self :: "Nexus \<Rightarrow> Rpc \<Rightarrow> SessionMgmtPkt \<Rightarrow> bool" where
  "sender_is_self nx rpc sm_pkt =
     (if session_mgmt_is_pkt_type_req (pkt_type sm_pkt) then
        hostname (pkt_client sm_pkt) = nexus_hostname nx \<and>
        app_tid (pkt_client sm_pkt) = rpc_app_tid rpc
      else
        hostname (pkt_server sm_pkt) = nexus_hostname nx \<and>
        app_tid (pkt_server sm_pkt) = rpc_app_tid rpc)"

text \<open>The \<open>switch\<close>: the handler of the packet's kind, or none (the \<open>default\<close> branch).\<close>

fun handler_of :: "sm_handlers \<Rightarrow> SessionMgmtPktType \<Rightarrow> sm_handler option" where
  "handler_of H kConnectReq = Some (handle_session_connect_req H)"
| "handler_of H kConnectResp = Some (handle_session_connect_resp H)"
| "handler_of H kDisconnectReq = Some (handle_session_disconnect_req H)"
| "handler_of H kDisconnectResp = Some (handle_session_disconnect_resp H)"
| "handler_of H (kOtherPktType n) = None"

text \<open>
  The loop over the pending packets. It returns the trace of the handlers called and
  the packets freed, and the state the loop ends in or the failure that ends it.
\<close>

fun sm_pkt_loop ::
  "sm_handlers \<Rightarrow> Nexus \<Rightarrow> SessionMgmtPkt list \<Rightarrow> Rpc \<times> session_heap \<Rightarrow>
     event list \<times> (Rpc \<times> session_heap) outcome" where
  "sm_pkt_loop H nx [] st = ([], Returns st)"
| "sm_pkt_loop H nx (sm_pkt # rest) st =
     (if sender_is_self nx (fst st) sm_pkt then ([], Fatal)
      else (case handler_of H (pkt_type sm_pkt) of
              None \<Rightarrow> ([], Fatal)
            | Some handler \<Rightarrow>
                (case handler sm_pkt st of
                   Returns st' \<Rightarrow>
                     (let (tr, r) = sm_pkt_loop H nx rest st'
                      in (Dispatch sm_pkt # FreePkt sm_pkt # tr, r))
                 | Throws e \<Rightarrow> ([Dispatch sm_pkt], Throws e)
                 | Fatal \<Rightarrow> ([Dispatch sm_pkt], Fatal)
                 | Undefined \<Rightarrow> ([Dispatch sm_pkt], Undefined))))"

definition handle_session_management ::
  "sm_handlers \<Rightarrow> Nexus \<Rightarrow> Rpc \<times> session_heap \<Rightarrow>
     event list \<times> (Rpc \<times> session_heap) outcome" where
  "handle_session_management H nx st =
     (if \<not> session_mgmt_ev_counter (sm_hook (fst st)) > 0 then ([], Fatal)
      else (case sm_pkt_loop H nx (session_mgmt_pkt_list (sm_hook (fst st))) st of
              (tr, Returns (rpc, h)) \<Rightarrow>
                (MutexLock # tr @ [MutexUnlock],
                 Returns
                   (rpc\<lparr>sm_hook := (sm_hook rpc)\<lparr>session_mgmt_pkt_list := [],
                                                 session_mgmt_ev_counter := 0\<rparr>\<rparr>, h))
            | (tr, r) \<Rightarrow> (MutexLock # tr, r)))"

text \<open>
  The dispatch of the specification (section 4.5, step 1b), written from its words for
  the theorems to compare the loop with: a ConnectReq goes to the connect-request
  handler, a ConnectResp to the connect-response handler, a DisconnectReq to the
  disconnect-request handler, a DisconnectResp to the disconnect-response handler, and
  any other value is fatal.
\<close>

definition spec_dispatch ::
  "sm_handlers \<Rightarrow> SessionMgmtPkt \<Rightarrow> Rpc \<times> session_heap \<Rightarrow> (Rpc \<times> session_heap) outcome" where
  "spec_dispatch H p st =
     (case pkt_type p of
        kConnectReq \<Rightarrow> handle_session_connect_req H p st
      | kConnectResp \<Rightarrow> handle_session_connect_resp H p st
      | kDisconnectReq \<Rightarrow> handle_session_disconnect_req H p st
      | kDisconnectResp \<Rightarrow> handle_session_disconnect_resp H p st
      | kOtherPktType n \<Rightarrow> Fatal)"

subsection \<open>The datapath\<close>

text \<open>
  \<open>send_request\<close> and \<open>send_response\<close> take the session and the buffer (its bytes) and
  return nothing: the result is the endpoint and the trace of the calls they made.
\<close>

definition send_request ::
  "Rpc \<times> session_heap \<Rightarrow> session_ptr \<Rightarrow> u8 list \<Rightarrow> event list \<times> Rpc \<times> session_heap" where
  "send_request st session buffer = unused session (unused buffer ([], st))"

definition send_response ::
  "Rpc \<times> session_heap \<Rightarrow> session_ptr \<Rightarrow> u8 list \<Rightarrow> event list \<times> Rpc \<times> session_heap" where
  "send_response st session buffer = unused session (unused buffer ([], st))"

subsection \<open>Inputs for the examples\<close>

text \<open>
  Values for the constants of the headers (any values would do for the examples), a
  directory with no hook, a random source, the two behaviours of
  \<open>init_hugepage_structures\<close>, handlers that return at once, and an endpoint with one
  session in its table.
\<close>

definition example_constants :: constants where
  "example_constants =
     \<lparr>kInvalidAppTid = 255, kMaxPhyPorts = 4, kMaxNumaNodes = 8,
      kInitialHugeAllocSize = 1024, kStartSeqMask = 0xFFFFFFFFFFFF\<rparr>"

definition example_nexus :: Nexus where
  "example_nexus = \<lparr>nexus_hostname = ''host-a'', reg_hooks = []\<rparr>"

definition example_rand :: SlowRand where
  "example_rand = \<lparr>draws = (\<lambda>n. 0xABCD000000000123), drawn = 0\<rparr>"

definition init_ok :: init_hugepage_structures where
  "init_ok tr ha = (None, ha\<lparr>chunks := [1, 2]\<rparr>)"

definition init_fails :: init_hugepage_structures where
  "init_fails tr ha = (Some (runtime_error ''hugepage structures''), ha\<lparr>chunks := [1, 2]\<rparr>)"

definition idle_handlers :: sm_handlers where
  "idle_handlers =
     \<lparr>handle_session_connect_req = (\<lambda>p st. Returns st),
      handle_session_connect_resp = (\<lambda>p st. Returns st),
      handle_session_disconnect_req = (\<lambda>p st. Returns st),
      handle_session_disconnect_resp = (\<lambda>p st. Returns st)\<rparr>"

definition example_session :: Session where
  "example_session =
     \<lparr>role = kClient,
      client = \<lparr>hostname = ''host-a'', app_tid = 3, session_num = 0\<rparr>,
      server = \<lparr>hostname = ''host-b'', app_tid = 7, session_num = 5\<rparr>,
      in_flight = False\<rparr>"

definition example_heap :: session_heap where
  "example_heap = (\<lambda>a. if a = 1 then Some example_session else None)"

definition example_rpc :: Rpc where
  "example_rpc =
     \<lparr>rpc_context = 0, rpc_app_tid = 3, session_mgmt_handler = 0, phy_port = 0,
      numa_node = 0, transport = Transport_new 3 0,
      huge_alloc = \<lparr>alloc_size = 1024, alloc_numa_node = 0, chunks = [1, 2]\<rparr>,
      session_vec = [Some 1],
      sm_hook = \<lparr>hook_app_tid = 3, session_mgmt_ev_counter = 1,
                 session_mgmt_pkt_list = []\<rparr>,
      slow_rand = example_rand\<rparr>"

definition example_pkt :: "SessionMgmtPktType \<Rightarrow> string \<Rightarrow> u8 \<Rightarrow> SessionMgmtPkt" where
  "example_pkt k host tid =
     \<lparr>pkt_type = k,
      pkt_client = \<lparr>hostname = host, app_tid = tid, session_num = 0\<rparr>,
      pkt_server = \<lparr>hostname = host, app_tid = tid, session_num = 0\<rparr>\<rparr>"

text \<open>The example endpoint with the packets \<open>q\<close> pending and the counter at \<open>n\<close>.\<close>

definition pending :: "nat \<Rightarrow> SessionMgmtPkt list \<Rightarrow> Rpc" where
  "pending n q =
     example_rpc\<lparr>sm_hook := \<lparr>hook_app_tid = 3, session_mgmt_ev_counter = n,
                              session_mgmt_pkt_list = q\<rparr>\<rparr>"

text \<open>
  Handlers that leave a mark of their own at the end of the session table, so that the
  table tells which handlers ran and in which order; a queue of one packet and a queue
  of five; the endpoint after the handlers have left the marks \<open>ms\<close>.
\<close>

definition mark :: "nat \<Rightarrow> sm_handler" where
  "mark n p st = Returns ((fst st)\<lparr>session_vec := session_vec (fst st) @ [Some n]\<rparr>, snd st)"

definition marking_handlers :: sm_handlers where
  "marking_handlers =
     \<lparr>handle_session_connect_req = mark 10,
      handle_session_connect_resp = mark 11,
      handle_session_disconnect_req = mark 12,
      handle_session_disconnect_resp = mark 13\<rparr>"

definition example_queue1 :: "SessionMgmtPkt list" where
  "example_queue1 = [example_pkt kDisconnectReq ''other-host'' 7]"

definition example_queue5 :: "SessionMgmtPkt list" where
  "example_queue5 =
     [example_pkt kConnectReq ''other-host'' 7,
      example_pkt kDisconnectResp ''host-a'' 9,
      example_pkt kConnectResp ''host-b'' 3,
      example_pkt kDisconnectReq ''other-host'' 7,
      example_pkt kConnectReq ''host-b'' 4]"

definition marked :: "SessionMgmtPkt list \<Rightarrow> nat list \<Rightarrow> Rpc \<times> session_heap" where
  "marked q ms = ((pending 1 q)\<lparr>session_vec := Some 1 # map Some ms\<rparr>, example_heap)"

definition example_queue :: "SessionMgmtPkt list" where
  "example_queue =
     [example_pkt kConnectReq ''other-host'' 7,
      example_pkt kDisconnectResp ''host-a'' 9,
      example_pkt kConnectResp ''host-b'' 3]"

section \<open>Properties\<close>

subsection \<open>Construction\<close>

text \<open>
  C2. A process that is not root (\<open>getuid()\<close> is not 0) gets the constructor's first
  exception, the \<open>std::runtime_error\<close> "You need to be root" that the specification
  calls PermissionError, whatever the other arguments are, and the trace is empty: no
  transport and no allocator has been created.
\<close>

theorem Rpc_new_not_root:
  "uid \<noteq> 0 \<Longrightarrow>
   Rpc_new K init uid sr nexus ctx tid handler port numa =
     ([], Throws (runtime_error ''eRPC Rpc: You need to be root to use eRPC''))"
  by (simp add: Rpc_new_def)

theorem Rpc_new_not_root_witness:
  "(1000 :: u32) \<noteq> 0 \<and>
   Rpc_new example_constants init_ok 1000 example_rand (Some example_nexus) 0 3 0 0 0 =
     ([], Throws (runtime_error ''eRPC Rpc: You need to be root to use eRPC''))"
  using Rpc_new_not_root [of 1000 example_constants init_ok example_rand "Some example_nexus" 0 3 0 0 0]
  by simp

lemma Rpc_new_registers:
  assumes "Rpc_new K init uid sr (Some nx) ctx tid handler port numa = (tr, Returns (rpc, nx'))"
  shows "app_tid_exists nx' tid"
  using assms
  by (auto simp: Rpc_new_def Let_def app_tid_exists_def register_hook_def
      split: if_splits prod.splits option.splits exn.splits)

text \<open>
  C7. For a root process each violation of an argument throws \<open>std::invalid_argument\<close>
  with a message of its own and an empty trace, so before any transport or allocator is
  created: a null directory, an application-thread id that is \<open>kInvalidAppTid\<close> or
  is registered at the directory, a port at or above \<open>kMaxPhyPorts\<close>, a NUMA node at or
  above \<open>kMaxNumaNodes\<close> (the checks run in this order, and the first that fails
  decides the message). When a construction has returned, every later construction with
  the same application-thread id on the directory it left throws the exception for the
  application-thread id.
\<close>

theorem Rpc_new_invalid_argument:
  "Rpc_new K init 0 sr None ctx tid handler port numa =
     ([], Throws (invalid_argument ''eRPC Rpc: Invalid nexus'')) \<and>
   (tid = kInvalidAppTid K \<or> app_tid_exists nx tid \<longrightarrow>
      Rpc_new K init 0 sr (Some nx) ctx tid handler port numa =
        ([], Throws (invalid_argument ''eRPC Rpc: Invalid app_tid''))) \<and>
   (tid \<noteq> kInvalidAppTid K \<and> \<not> app_tid_exists nx tid \<and> kMaxPhyPorts K \<le> unat port \<longrightarrow>
      Rpc_new K init 0 sr (Some nx) ctx tid handler port numa =
        ([], Throws (invalid_argument ''eRPC Rpc: Invalid physical port''))) \<and>
   (tid \<noteq> kInvalidAppTid K \<and> \<not> app_tid_exists nx tid \<and> unat port < kMaxPhyPorts K \<and>
    kMaxNumaNodes K \<le> unat numa \<longrightarrow>
      Rpc_new K init 0 sr (Some nx) ctx tid handler port numa =
        ([], Throws (invalid_argument ''eRPC Rpc: Invalid NUMA node''))) \<and>
   (nexus = None \<or> tid = kInvalidAppTid K \<or> (\<exists>n. nexus = Some n \<and> app_tid_exists n tid) \<or>
    kMaxPhyPorts K \<le> unat port \<or> kMaxNumaNodes K \<le> unat numa \<longrightarrow>
      (\<exists>msg. Rpc_new K init 0 sr nexus ctx tid handler port numa =
         ([], Throws (invalid_argument msg)))) \<and>
   (Rpc_new K init 0 sr (Some nx) ctx tid handler port numa = (tr, Returns (rpc, nx')) \<longrightarrow>
      Rpc_new K' init' 0 sr' (Some nx') ctx' tid handler' port' numa' =
        ([], Throws (invalid_argument ''eRPC Rpc: Invalid app_tid'')))"
proof (intro conjI impI)
  show "Rpc_new K init 0 sr None ctx tid handler port numa =
     ([], Throws (invalid_argument ''eRPC Rpc: Invalid nexus''))"
    by (simp add: Rpc_new_def)
next
  assume "tid = kInvalidAppTid K \<or> app_tid_exists nx tid"
  then show "Rpc_new K init 0 sr (Some nx) ctx tid handler port numa =
        ([], Throws (invalid_argument ''eRPC Rpc: Invalid app_tid''))"
    by (auto simp: Rpc_new_def)
next
  assume "tid \<noteq> kInvalidAppTid K \<and> \<not> app_tid_exists nx tid \<and> kMaxPhyPorts K \<le> unat port"
  then show "Rpc_new K init 0 sr (Some nx) ctx tid handler port numa =
        ([], Throws (invalid_argument ''eRPC Rpc: Invalid physical port''))"
    by (simp add: Rpc_new_def)
next
  assume "tid \<noteq> kInvalidAppTid K \<and> \<not> app_tid_exists nx tid \<and> unat port < kMaxPhyPorts K \<and>
    kMaxNumaNodes K \<le> unat numa"
  then show "Rpc_new K init 0 sr (Some nx) ctx tid handler port numa =
        ([], Throws (invalid_argument ''eRPC Rpc: Invalid NUMA node''))"
    by (simp add: Rpc_new_def)
next
  assume "nexus = None \<or> tid = kInvalidAppTid K \<or> (\<exists>n. nexus = Some n \<and> app_tid_exists n tid) \<or>
    kMaxPhyPorts K \<le> unat port \<or> kMaxNumaNodes K \<le> unat numa"
  then show "\<exists>msg. Rpc_new K init 0 sr nexus ctx tid handler port numa =
         ([], Throws (invalid_argument msg))"
    by (cases nexus) (auto simp: Rpc_new_def)
next
  assume "Rpc_new K init 0 sr (Some nx) ctx tid handler port numa = (tr, Returns (rpc, nx'))"
  then have "app_tid_exists nx' tid" by (rule Rpc_new_registers)
  then show "Rpc_new K' init' 0 sr' (Some nx') ctx' tid handler' port' numa' =
        ([], Throws (invalid_argument ''eRPC Rpc: Invalid app_tid''))"
    by (simp add: Rpc_new_def)
qed

lemma Rpc_new_first:
  "Rpc_new example_constants init_ok 0 example_rand (Some example_nexus) 0 3 0 0 0 =
     ([NewTransport 3 0, NewHugeAllocator 1024 0, InitHugepageStructures, RegisterHook 3],
      Returns
        (\<lparr>rpc_context = 0, rpc_app_tid = 3, session_mgmt_handler = 0, phy_port = 0,
          numa_node = 0, transport = Transport_new 3 0,
          huge_alloc = \<lparr>alloc_size = 1024, alloc_numa_node = 0, chunks = [1, 2]\<rparr>,
          session_vec = [],
          sm_hook = \<lparr>hook_app_tid = 3, session_mgmt_ev_counter = 0,
                     session_mgmt_pkt_list = []\<rparr>,
          slow_rand = example_rand\<rparr>,
         example_nexus\<lparr>reg_hooks := [3]\<rparr>))"
  by (simp add: Rpc_new_def example_constants_def init_ok_def example_nexus_def
      app_tid_exists_def register_hook_def HugeAllocator_new_def Let_def)

theorem Rpc_new_invalid_argument_witness:
  "Rpc_new example_constants init_ok 0 example_rand None 0 3 0 0 0 =
     ([], Throws (invalid_argument ''eRPC Rpc: Invalid nexus'')) \<and>
   (255 :: u8) = kInvalidAppTid example_constants \<and>
   Rpc_new example_constants init_ok 0 example_rand (Some example_nexus) 0 255 0 0 0 =
     ([], Throws (invalid_argument ''eRPC Rpc: Invalid app_tid'')) \<and>
   kMaxPhyPorts example_constants \<le> unat (4 :: u8) \<and>
   Rpc_new example_constants init_ok 0 example_rand (Some example_nexus) 0 3 0 4 0 =
     ([], Throws (invalid_argument ''eRPC Rpc: Invalid physical port'')) \<and>
   kMaxNumaNodes example_constants \<le> unat (8 :: size_t) \<and>
   Rpc_new example_constants init_ok 0 example_rand (Some example_nexus) 0 3 0 0 8 =
     ([], Throws (invalid_argument ''eRPC Rpc: Invalid NUMA node'')) \<and>
   (\<exists>msg. Rpc_new example_constants init_ok 0 example_rand (Some example_nexus) 0 255 0 9 9 =
      ([], Throws (invalid_argument msg))) \<and>
   (\<exists>tr rpc nx'.
      Rpc_new example_constants init_ok 0 example_rand (Some example_nexus) 0 3 0 0 0 =
        (tr, Returns (rpc, nx')) \<and>
      Rpc_new example_constants init_fails 0 example_rand (Some nx') 1 3 1 1 1 =
        ([], Throws (invalid_argument ''eRPC Rpc: Invalid app_tid'')))"
proof -
  note t1 = Rpc_new_invalid_argument
    [where K = example_constants and init = init_ok and sr = example_rand
       and nx = example_nexus and ctx = 0 and handler = 0]
  have a: "app_tid_exists example_nexus 3 = False" "kInvalidAppTid example_constants = 255"
    "kMaxPhyPorts example_constants = 4" "kMaxNumaNodes example_constants = 8"
    by (simp_all add: app_tid_exists_def example_nexus_def example_constants_def)
  have c1: "Rpc_new example_constants init_ok 0 example_rand None 0 3 0 0 0 =
     ([], Throws (invalid_argument ''eRPC Rpc: Invalid nexus''))"
    using t1 [where tid = 3 and port = 0 and numa = 0] by simp
  have c2: "Rpc_new example_constants init_ok 0 example_rand (Some example_nexus) 0 255 0 0 0 =
     ([], Throws (invalid_argument ''eRPC Rpc: Invalid app_tid''))"
    using t1 [where tid = 255 and port = 0 and numa = 0] a by simp
  have c3: "Rpc_new example_constants init_ok 0 example_rand (Some example_nexus) 0 3 0 4 0 =
     ([], Throws (invalid_argument ''eRPC Rpc: Invalid physical port''))"
    using t1 [where tid = 3 and port = 4 and numa = 0] a by simp
  have c4: "Rpc_new example_constants init_ok 0 example_rand (Some example_nexus) 0 3 0 0 8 =
     ([], Throws (invalid_argument ''eRPC Rpc: Invalid NUMA node''))"
    using t1 [where tid = 3 and port = 0 and numa = 8] a by simp
  have c5: "\<exists>msg. Rpc_new example_constants init_ok 0 example_rand (Some example_nexus) 0 255 0 9 9 =
      ([], Throws (invalid_argument msg))"
    using t1 [where tid = 255 and port = 9 and numa = 9 and nexus = "Some example_nexus"] a
    by simp
  have c6: "Rpc_new example_constants init_fails 0 example_rand
              (Some (example_nexus\<lparr>reg_hooks := [3]\<rparr>)) 1 3 1 1 1 =
        ([], Throws (invalid_argument ''eRPC Rpc: Invalid app_tid''))"
    using t1 [where tid = 3 and port = 0 and numa = 0 and K' = example_constants
        and init' = init_fails and sr' = example_rand and ctx' = 1 and handler' = 1
        and port' = 1 and numa' = 1, THEN conjunct2, THEN conjunct2, THEN conjunct2,
        THEN conjunct2, THEN conjunct2, rule_format, OF Rpc_new_first] .
  from c1 c2 c3 c4 c5 c6 a Rpc_new_first show ?thesis by simp
qed

text \<open>
  When \<open>init_hugepage_structures\<close> throws a \<open>std::runtime_error\<close>, the constructor
  deletes the allocator, which deregisters every chunk it holds, and throws the error on.
\<close>

lemma Rpc_new_init_throws:
  assumes "tid \<noteq> kInvalidAppTid K" "\<not> app_tid_exists nx tid"
    "unat port < kMaxPhyPorts K" "unat numa < kMaxNumaNodes K"
    and "init (Transport_new tid port) (HugeAllocator_new (kInitialHugeAllocSize K) numa) =
           (Some (runtime_error m), ha')"
  shows "Rpc_new K init 0 sr (Some nx) ctx tid handler port numa =
           ([NewTransport tid port, NewHugeAllocator (kInitialHugeAllocSize K) numa,
             InitHugepageStructures] @ map DeregMr (chunks ha') @ [DeleteHugeAllocator],
            Throws (runtime_error m))"
  using assms by (simp add: Rpc_new_def Let_def HugeAllocator_delete_def)

text \<open>
  C1. The failing step at a concrete input: \<open>init_hugepage_structures\<close> takes two chunks
  and throws. The allocator is deleted, its two chunks are deregistered, and the error
  reaches the caller; but the transport object created first is not deleted on this
  path, so one transport is left alive.
\<close>

theorem Rpc_new_init_failure_keeps_transport:
  "Rpc_new example_constants init_fails 0 example_rand (Some example_nexus) 0 3 0 0 0 =
     ([NewTransport 3 0, NewHugeAllocator 1024 0, InitHugepageStructures,
       DeregMr 1, DeregMr 2, DeleteHugeAllocator],
      Throws (runtime_error ''hugepage structures'')) \<and>
   live_transports
     (fst (Rpc_new example_constants init_fails 0 example_rand (Some example_nexus) 0 3 0 0 0))
     = 1"
  by (simp add: Rpc_new_def example_constants_def init_fails_def example_nexus_def
      app_tid_exists_def HugeAllocator_new_def HugeAllocator_delete_def Let_def
      live_transports_def)

subsection \<open>Destruction\<close>

text \<open>The loop over the table leaves the store of sessions as it is.\<close>

lemma session_loop_id: "session_loop vec h = h"
  by (induction vec arbitrary: h) (simp_all add: unused_def)

text \<open>
  The destructor deletes the allocator, which deregisters its chunks, and then the
  transport; it calls nothing for a session.
\<close>

lemma Rpc_delete_trace:
  "Rpc_delete rpc h =
     (map DeregMr (chunks (huge_alloc rpc)) @ [DeleteHugeAllocator, DeleteTransport], h)"
  by (simp add: Rpc_delete_def HugeAllocator_delete_def session_loop_id)

text \<open>
  C3. The destructor at an endpoint with one session in its table: the allocator is
  deleted first, then the transport, and no call is made for the session; the session
  object is still in the store afterwards, it has not been released.
\<close>

theorem Rpc_delete_keeps_sessions:
  "Rpc_delete example_rpc example_heap =
     ([DeregMr 1, DeregMr 2, DeleteHugeAllocator, DeleteTransport], example_heap) \<and>
   session_vec example_rpc = [Some 1] \<and>
   snd (Rpc_delete example_rpc example_heap) 1 = Some example_session"
  by (simp add: Rpc_delete_def HugeAllocator_delete_def example_rpc_def unused_def
      example_heap_def)

text \<open>
  A construction that returns, followed by the destruction, leaves no transport alive:
  the destructor is the one path that deletes the transport.
\<close>

lemma transports_after_append:
  "transports_after n (xs @ ys) = transports_after (transports_after n xs) ys"
  by (induction n xs rule: transports_after.induct) simp_all

lemma transports_after_DeregMr: "transports_after n (map DeregMr cs) = n"
  by (induction cs) simp_all

lemma live_transports_new_delete:
  "live_transports [NewTransport t p, DeleteTransport] = 0"
  "live_transports
     (fst (Rpc_new example_constants init_ok 0 example_rand (Some example_nexus) 0 3 0 0 0) @
      fst (Rpc_delete rpc h)) = 0"
  by (simp_all add: live_transports_def Rpc_new_first Rpc_delete_trace
      transports_after_append transports_after_DeregMr)

subsection \<open>Sequence numbers\<close>

text \<open>
  C9. \<open>generate_start_seq\<close> returns the value it draws from \<open>slow_rand\<close> masked with
  \<open>kStartSeqMask\<close>, so the result has no bit outside the mask; the random source moves
  on by one draw and nothing else of the endpoint changes.
\<close>

theorem generate_start_seq_masked:
  "fst (generate_start_seq K rpc) = fst (next_u64 (slow_rand rpc)) AND kStartSeqMask K \<and>
   fst (generate_start_seq K rpc) AND NOT (kStartSeqMask K) = 0 \<and>
   snd (generate_start_seq K rpc) = rpc\<lparr>slow_rand := snd (next_u64 (slow_rand rpc))\<rparr>"
  by (simp add: generate_start_seq_def split_beta word_bw_assocs)

subsection \<open>The session table\<close>

lemma std_find_le: "std_find xs x \<le> length xs"
  by (induction xs) auto

lemma std_find_end: "(std_find xs x = length xs) = (x \<notin> set xs)"
proof (induction xs)
  case Nil
  show ?case by simp
next
  case (Cons y ys)
  have "std_find ys x \<le> length ys" by (rule std_find_le)
  with Cons show ?case by auto
qed

lemma is_session_ptr_client_absent:
  "Some a \<notin> set (session_vec rpc) \<Longrightarrow> is_session_ptr_client rpc h (Some a) = Returns False"
  by (simp add: is_session_ptr_client_def std_find_end)

lemma is_session_ptr_client_live:
  "Some a \<in> set (session_vec rpc) \<Longrightarrow> h a = Some s \<Longrightarrow>
   is_session_ptr_client rpc h (Some a) = Returns (role s = kClient)"
  by (simp add: is_session_ptr_client_def std_find_end)

lemma is_session_ptr_server_absent:
  "Some a \<notin> set (session_vec rpc) \<Longrightarrow> is_session_ptr_server rpc h (Some a) = Returns False"
  by (simp add: is_session_ptr_server_def std_find_end)

lemma is_session_ptr_server_live:
  "Some a \<in> set (session_vec rpc) \<Longrightarrow> h a = Some s \<Longrightarrow>
   is_session_ptr_server rpc h (Some a) = Returns (role s = kServer)"
  by (simp add: is_session_ptr_server_def std_find_end)

text \<open>
  C8. \<open>is_session_ptr_client\<close> and \<open>is_session_ptr_server\<close> return false for the null
  pointer and for a pointer that is in no slot of \<open>session_vec\<close>; for a pointer in the
  table, to a session that is alive, \<open>is_session_ptr_client\<close> returns whether the role
  is \<open>kClient\<close> and \<open>is_session_ptr_server\<close> whether it is \<open>kServer\<close>.
\<close>

theorem is_session_ptr_cases:
  "is_session_ptr_client rpc h None = Returns False \<and>
   is_session_ptr_server rpc h None = Returns False \<and>
   (Some a \<notin> set (session_vec rpc) \<longrightarrow>
      is_session_ptr_client rpc h (Some a) = Returns False \<and>
      is_session_ptr_server rpc h (Some a) = Returns False) \<and>
   (Some a \<in> set (session_vec rpc) \<and> h a = Some s \<longrightarrow>
      is_session_ptr_client rpc h (Some a) = Returns (role s = kClient) \<and>
      is_session_ptr_server rpc h (Some a) = Returns (role s = kServer))"
  by (simp add: is_session_ptr_client_absent is_session_ptr_server_absent
      is_session_ptr_client_live is_session_ptr_server_live)
     (simp add: is_session_ptr_client_def is_session_ptr_server_def)

theorem is_session_ptr_cases_witness:
  "Some 2 \<notin> set (session_vec example_rpc) \<and>
   is_session_ptr_client example_rpc example_heap (Some 2) = Returns False \<and>
   is_session_ptr_server example_rpc example_heap (Some 2) = Returns False \<and>
   Some 1 \<in> set (session_vec example_rpc) \<and> example_heap 1 = Some example_session \<and>
   is_session_ptr_client example_rpc example_heap (Some 1) = Returns True \<and>
   is_session_ptr_server example_rpc example_heap (Some 1) = Returns False"
  using is_session_ptr_cases [of example_rpc example_heap 2 example_session]
    is_session_ptr_cases [of example_rpc example_heap 1 example_session]
  by (simp add: example_rpc_def example_heap_def example_session_def)

lemma only_slot_cleared:
  assumes "\<forall>i < length xs. xs ! i = x \<longrightarrow> i = n"
  shows "x \<noteq> y \<Longrightarrow> x \<notin> set (xs[n := y])"
proof
  assume xy: "x \<noteq> y" and "x \<in> set (xs[n := y])"
  then obtain i where i: "i < length xs" "xs[n := y] ! i = x"
    by (auto simp: in_set_conv_nth)
  show False
  proof (cases "i = n")
    case True
    with i xy show False by simp
  next
    case False
    with i have "xs ! i = x" by simp
    with assms i False show False by blast
  qed
qed

lemma bury_in_flight:
  assumes "h a = Some s" "role s = kClient" "is_in_flight s"
  shows "bury_session rpc h (Some a) = Fatal"
proof (cases "Some a \<in> set (session_vec rpc)")
  case True
  with assms show ?thesis
    by (simp add: bury_session_def is_session_ptr_client_live)
next
  case False
  with assms show ?thesis
    by (simp add: bury_session_def is_session_ptr_client_absent)
qed

lemma bury_idle:
  assumes s: "h a = Some s" "role s = kClient" "\<not> is_in_flight s"
    and mem: "Some a \<in> set (session_vec rpc)"
    and slot: "\<forall>i < length (session_vec rpc).
                 session_vec rpc ! i = Some a \<longrightarrow> i = unat (session_num (client s))"
  shows "unat (session_num (client s)) < length (session_vec rpc)"
    and "bury_session rpc h (Some a) =
           Returns (rpc\<lparr>session_vec :=
                          (session_vec rpc)[unat (session_num (client s)) := None]\<rparr>,
                    h(a := None))"
    and "is_session_ptr_client
           (rpc\<lparr>session_vec := (session_vec rpc)[unat (session_num (client s)) := None]\<rparr>)
           (h(a := None)) (Some a) = Returns False"
proof -
  from mem obtain i where i: "i < length (session_vec rpc)" "session_vec rpc ! i = Some a"
    by (auto simp: in_set_conv_nth)
  with slot have "i = unat (session_num (client s))" by blast
  with i show lt: "unat (session_num (client s)) < length (session_vec rpc)" by simp
  from s mem lt show "bury_session rpc h (Some a) =
           Returns (rpc\<lparr>session_vec :=
                          (session_vec rpc)[unat (session_num (client s)) := None]\<rparr>,
                    h(a := None))"
    by (simp add: bury_session_def is_session_ptr_client_live clear_slot_def)
  have "Some a \<notin> set ((session_vec rpc)[unat (session_num (client s)) := None])"
    using slot by (rule only_slot_cleared) simp
  then show "is_session_ptr_client
           (rpc\<lparr>session_vec := (session_vec rpc)[unat (session_num (client s)) := None]\<rparr>)
           (h(a := None)) (Some a) = Returns False"
    by (simp add: is_session_ptr_client_absent)
qed

text \<open>
  Outside the invariant of the data model \<open>bury_session\<close> does not do this: a session
  whose number is past the end of the table makes \<open>at\<close> throw, and a session that sits
  in another slot than the one of its number stays in the table after it is deleted.
\<close>

lemma bury_session_other_slot:
  "bury_session (example_rpc\<lparr>session_vec := [Some 1]\<rparr>)
     (example_heap(1 := Some (example_session\<lparr>client := (client example_session)\<lparr>session_num := 5\<rparr>\<rparr>)))
     (Some 1) = Throws out_of_range"
  "bury_session (example_rpc\<lparr>session_vec := [None, Some 1]\<rparr>) example_heap (Some 1) =
     Returns (example_rpc\<lparr>session_vec := [None, Some 1]\<rparr>, example_heap(1 := None))"
  "is_session_ptr_client (example_rpc\<lparr>session_vec := [None, Some 1]\<rparr>)
     (example_heap(1 := None)) (Some 1) = Undefined"
  by (simp_all add: bury_session_def is_session_ptr_client_def clear_slot_def
      is_in_flight_def example_rpc_def example_heap_def example_session_def)

text \<open>
  C6. \<open>bury_session\<close> on a client session that is in flight aborts. On a client session
  that is not in flight and occupies a slot of the table, the slot its session number
  indexes (the data model's invariant: a session sits in the slot of its session number
  and in no other), it returns: that slot is null afterwards, the session is deleted,
  and \<open>is_session_ptr_client\<close> on the pointer then returns false.
\<close>

theorem bury_session_client:
  "(h a = Some s \<and> role s = kClient \<and> is_in_flight s \<longrightarrow>
      bury_session rpc h (Some a) = Fatal) \<and>
   (h a = Some s \<and> role s = kClient \<and> \<not> is_in_flight s \<and>
    Some a \<in> set (session_vec rpc) \<and>
    (\<forall>i < length (session_vec rpc).
       session_vec rpc ! i = Some a \<longrightarrow> i = unat (session_num (client s))) \<longrightarrow>
      (\<exists>rpc' h'.
         bury_session rpc h (Some a) = Returns (rpc', h') \<and>
         rpc' = rpc\<lparr>session_vec :=
                      (session_vec rpc)[unat (session_num (client s)) := None]\<rparr> \<and>
         h' = h(a := None) \<and>
         unat (session_num (client s)) < length (session_vec rpc') \<and>
         session_vec rpc' ! unat (session_num (client s)) = None \<and>
         is_session_ptr_client rpc' h' (Some a) = Returns False))"
proof (intro conjI impI)
  assume "h a = Some s \<and> role s = kClient \<and> is_in_flight s"
  then show "bury_session rpc h (Some a) = Fatal"
    by (simp add: bury_in_flight)
next
  assume a: "h a = Some s \<and> role s = kClient \<and> \<not> is_in_flight s \<and>
    Some a \<in> set (session_vec rpc) \<and>
    (\<forall>i < length (session_vec rpc).
       session_vec rpc ! i = Some a \<longrightarrow> i = unat (session_num (client s)))"
  then have s: "h a = Some s" "role s = kClient" "\<not> is_in_flight s"
    and mem: "Some a \<in> set (session_vec rpc)"
    and slot: "\<forall>i < length (session_vec rpc).
                 session_vec rpc ! i = Some a \<longrightarrow> i = unat (session_num (client s))"
    by simp_all
  note b = bury_idle [of h a s rpc, OF s mem slot]
  show "\<exists>rpc' h'.
         bury_session rpc h (Some a) = Returns (rpc', h') \<and>
         rpc' = rpc\<lparr>session_vec :=
                      (session_vec rpc)[unat (session_num (client s)) := None]\<rparr> \<and>
         h' = h(a := None) \<and>
         unat (session_num (client s)) < length (session_vec rpc') \<and>
         session_vec rpc' ! unat (session_num (client s)) = None \<and>
         is_session_ptr_client rpc' h' (Some a) = Returns False"
    using b by simp
qed

theorem bury_session_client_witness:
  "bury_session example_rpc (example_heap(1 := Some (example_session\<lparr>in_flight := True\<rparr>)))
     (Some 1) = Fatal \<and>
   bury_session example_rpc example_heap (Some 1) =
     Returns (example_rpc\<lparr>session_vec := [None]\<rparr>, example_heap(1 := None)) \<and>
   is_session_ptr_client (example_rpc\<lparr>session_vec := [None]\<rparr>) (example_heap(1 := None))
     (Some 1) = Returns False"
  using
    bury_session_client [of "example_heap(1 := Some (example_session\<lparr>in_flight := True\<rparr>))" 1
      "example_session\<lparr>in_flight := True\<rparr>" example_rpc]
    bury_session_client [of example_heap 1 example_session example_rpc]
  by (simp add: example_rpc_def example_heap_def example_session_def is_in_flight_def)

subsection \<open>Session management\<close>

text \<open>The sender block per kind of packet.\<close>

lemma sender_is_self_kinds:
  "pkt_type p = kConnectReq \<or> pkt_type p = kDisconnectReq \<Longrightarrow>
     sender_is_self nx rpc p =
       (hostname (pkt_client p) = nexus_hostname nx \<and> app_tid (pkt_client p) = rpc_app_tid rpc)"
  "pkt_type p = kConnectResp \<or> pkt_type p = kDisconnectResp \<Longrightarrow>
     sender_is_self nx rpc p =
       (hostname (pkt_server p) = nexus_hostname nx \<and> app_tid (pkt_server p) = rpc_app_tid rpc)"
  by (auto simp: sender_is_self_def)

lemma sm_pkt_loop_append:
  "sm_pkt_loop H nx ps st = (tr, Returns st') \<Longrightarrow>
   sm_pkt_loop H nx (ps @ qs) st =
     (tr @ fst (sm_pkt_loop H nx qs st'), snd (sm_pkt_loop H nx qs st'))"
proof (induction ps arbitrary: st tr)
  case Nil
  then show ?case by simp
next
  case (Cons p ps)
  from Cons.prems obtain hd s1 tr1 where
    notself: "\<not> sender_is_self nx (fst st) p"
    and hd: "handler_of H (pkt_type p) = Some hd"
    and s1: "hd p st = Returns s1"
    and rest: "sm_pkt_loop H nx ps s1 = (tr1, Returns st')"
    and tr: "tr = Dispatch p # FreePkt p # tr1"
    by (auto split: if_splits option.splits outcome.splits prod.splits)
  from Cons.IH [OF rest] notself hd s1 tr show ?case by simp
qed

lemma sm_pkt_loop_self:
  "sender_is_self nx (fst st) p \<Longrightarrow> sm_pkt_loop H nx (p # rest) st = ([], Fatal)"
  by simp

lemma sm_pkt_loop_never_returns:
  assumes hs: "\<forall>k hd p s s'. handler_of H k = Some hd \<and> hd p s = Returns s' \<longrightarrow>
                 rpc_app_tid (fst s') = rpc_app_tid (fst s)"
  shows "p \<in> set pkts \<Longrightarrow> sender_is_self nx (fst st) p \<Longrightarrow>
         snd (sm_pkt_loop H nx pkts st) \<noteq> Returns x"
proof (induction pkts arbitrary: st)
  case Nil
  then show ?case by simp
next
  case (Cons q qs)
  show ?case
  proof (cases "sender_is_self nx (fst st) q")
    case True
    then show ?thesis by simp
  next
    case notself: False
    with Cons.prems have mem: "p \<in> set qs" by auto
    show ?thesis
    proof (cases "handler_of H (pkt_type q)")
      case None
      with notself show ?thesis by simp
    next
      case (Some hd)
      show ?thesis
      proof (cases "hd q st")
        case (Returns s1)
        from hs [rule_format, of "pkt_type q" hd q st s1] Some Returns
        have "rpc_app_tid (fst s1) = rpc_app_tid (fst st)" by simp
        with Cons.prems have "sender_is_self nx (fst s1) p"
          by (simp add: sender_is_self_def)
        from Cons.IH [OF mem this] notself Some Returns show ?thesis
          by (simp add: split_beta)
      qed (use notself Some in simp_all)
    qed
  qed
qed

lemma idle_handlers_return:
  "\<forall>k hd p s. handler_of idle_handlers k = Some hd \<longrightarrow>
     (\<exists>s'. hd p s = Returns s' \<and> rpc_app_tid (fst s') = rpc_app_tid (fst s))"
proof (intro allI impI)
  fix k hd p s
  assume "handler_of idle_handlers k = Some hd"
  then have "hd = (\<lambda>p st. Returns st)"
    by (cases k) (auto simp: idle_handlers_def)
  then show "\<exists>s'. hd p s = Returns s' \<and> rpc_app_tid (fst s') = rpc_app_tid (fst s)"
    by simp
qed

lemma idle_handlers_keep_app_tid:
  "\<forall>k hd p s s'. handler_of idle_handlers k = Some hd \<and> hd p s = Returns s' \<longrightarrow>
     rpc_app_tid (fst s') = rpc_app_tid (fst s)"
  using idle_handlers_return by (metis outcome.inject(1))

lemmas example_simps =
  pending_def example_queue_def example_rpc_def example_pkt_def example_nexus_def
  sender_is_self_def

lemma spec_dispatch_handler_of:
  "spec_dispatch H p st =
     (case handler_of H (pkt_type p) of None \<Rightarrow> Fatal | Some f \<Rightarrow> f p st)"
  by (cases "pkt_type p") (simp_all add: spec_dispatch_def)

lemma sm_pkt_loop_chain:
  "length sts = Suc (length pkts) \<Longrightarrow> sts ! 0 = st \<Longrightarrow>
   \<forall>i < length pkts.
      \<not> sender_is_self nx (fst (sts ! i)) (pkts ! i) \<and>
      spec_dispatch H (pkts ! i) (sts ! i) = Returns (sts ! Suc i) \<Longrightarrow>
   sm_pkt_loop H nx pkts st =
     (concat (map (\<lambda>p. [Dispatch p, FreePkt p]) pkts), Returns (sts ! length pkts))"
proof (induction pkts arbitrary: st sts)
  case Nil
  then show ?case by simp
next
  case (Cons p ps)
  from Cons.prems(1) obtain s0 rest where sts: "sts = s0 # rest"
    and len: "length rest = Suc (length ps)"
    by (cases sts) auto
  from Cons.prems(2) sts have s0: "s0 = st" by simp
  from Cons.prems(3) [rule_format, of 0] sts s0
  have notself: "\<not> sender_is_self nx (fst st) p"
    and step: "spec_dispatch H p st = Returns (rest ! 0)" by simp_all
  from step obtain f where hd: "handler_of H (pkt_type p) = Some f"
    and call: "f p st = Returns (rest ! 0)"
    by (auto simp: spec_dispatch_handler_of split: option.splits)
  have later: "\<forall>i < length ps.
      \<not> sender_is_self nx (fst (rest ! i)) (ps ! i) \<and>
      spec_dispatch H (ps ! i) (rest ! i) = Returns (rest ! Suc i)"
  proof (intro allI impI)
    fix i assume "i < length ps"
    then have "Suc i < length (p # ps)" by simp
    from Cons.prems(3) [rule_format, OF this] sts
    show "\<not> sender_is_self nx (fst (rest ! i)) (ps ! i) \<and>
      spec_dispatch H (ps ! i) (rest ! i) = Returns (rest ! Suc i)" by simp
  qed
  from Cons.IH [OF len refl later]
  have "sm_pkt_loop H nx ps (rest ! 0) =
          (concat (map (\<lambda>p. [Dispatch p, FreePkt p]) ps), Returns (rest ! length ps))" .
  with notself hd call sts show ?case by simp
qed

lemma all_less_Suc: "(\<forall>i < Suc n. P i) = (P 0 \<and> (\<forall>i < n. P (Suc i)))"
  by (auto simp: less_Suc_eq_0_disj)

text \<open>
  C4. \<open>handle_session_management\<close> aborts when the event counter is zero. With a
  counter above zero it drains a queue \<open>pkts\<close> of any length in the order of the queue:
  when \<open>sts\<close> are the states of the run, the first the state of the call and each next
  one the state in which the handler of the packet's kind returns from the state
  before, when no packet names this endpoint as its sender in the state it is reached
  in, and when no handler has rewritten the list the loop runs over, the call returns.
  Under the mutex it has called, packet by packet, the handler and then freed the
  packet; the state it returns is the last state of the run with the queue of the hook
  empty and its counter at zero.
\<close>

theorem drain_fifo:
  "(session_mgmt_ev_counter (sm_hook (fst st)) = 0 \<longrightarrow>
      handle_session_management H nx st = ([], Fatal)) \<and>
   (0 < session_mgmt_ev_counter (sm_hook (fst st)) \<and>
    session_mgmt_pkt_list (sm_hook (fst st)) = pkts \<and>
    length sts = Suc (length pkts) \<and> sts ! 0 = st \<and>
    (\<forall>i < length pkts.
       \<not> sender_is_self nx (fst (sts ! i)) (pkts ! i) \<and>
       spec_dispatch H (pkts ! i) (sts ! i) = Returns (sts ! Suc i) \<and>
       session_mgmt_pkt_list (sm_hook (fst (sts ! Suc i))) = pkts) \<longrightarrow>
      handle_session_management H nx st =
        (MutexLock # concat (map (\<lambda>p. [Dispatch p, FreePkt p]) pkts) @ [MutexUnlock],
         Returns
           ((fst (sts ! length pkts))
              \<lparr>sm_hook := (sm_hook (fst (sts ! length pkts)))
                 \<lparr>session_mgmt_pkt_list := [], session_mgmt_ev_counter := 0\<rparr>\<rparr>,
            snd (sts ! length pkts))))"
proof (intro conjI impI)
  assume "session_mgmt_ev_counter (sm_hook (fst st)) = 0"
  then show "handle_session_management H nx st = ([], Fatal)"
    by (simp add: handle_session_management_def)
next
  assume a: "0 < session_mgmt_ev_counter (sm_hook (fst st)) \<and>
    session_mgmt_pkt_list (sm_hook (fst st)) = pkts \<and>
    length sts = Suc (length pkts) \<and> sts ! 0 = st \<and>
    (\<forall>i < length pkts.
       \<not> sender_is_self nx (fst (sts ! i)) (pkts ! i) \<and>
       spec_dispatch H (pkts ! i) (sts ! i) = Returns (sts ! Suc i) \<and>
       session_mgmt_pkt_list (sm_hook (fst (sts ! Suc i))) = pkts)"
  then have pos: "0 < session_mgmt_ev_counter (sm_hook (fst st))"
    and q: "session_mgmt_pkt_list (sm_hook (fst st)) = pkts"
    and len: "length sts = Suc (length pkts)" and first: "sts ! 0 = st"
    and steps: "\<forall>i < length pkts.
       \<not> sender_is_self nx (fst (sts ! i)) (pkts ! i) \<and>
       spec_dispatch H (pkts ! i) (sts ! i) = Returns (sts ! Suc i)"
    by simp_all
  have loop: "sm_pkt_loop H nx pkts st =
     (concat (map (\<lambda>p. [Dispatch p, FreePkt p]) pkts), Returns (sts ! length pkts))"
    using len first steps by (rule sm_pkt_loop_chain)
  obtain r h where last: "sts ! length pkts = (r, h)" by (cases "sts ! length pkts")
  from pos q loop last show "handle_session_management H nx st =
        (MutexLock # concat (map (\<lambda>p. [Dispatch p, FreePkt p]) pkts) @ [MutexUnlock],
         Returns
           ((fst (sts ! length pkts))
              \<lparr>sm_hook := (sm_hook (fst (sts ! length pkts)))
                 \<lparr>session_mgmt_pkt_list := [], session_mgmt_ev_counter := 0\<rparr>\<rparr>,
            snd (sts ! length pkts)))"
    by (simp add: handle_session_management_def)
qed

theorem drain_fifo_witness:
  "handle_session_management marking_handlers example_nexus
     (pending 0 example_queue5, example_heap) = ([], Fatal) \<and>
   handle_session_management marking_handlers example_nexus (marked [] []) =
     ([MutexLock, MutexUnlock],
      Returns ((pending 0 [])\<lparr>session_vec := [Some 1]\<rparr>, example_heap)) \<and>
   handle_session_management marking_handlers example_nexus (marked example_queue1 []) =
     ([MutexLock,
       Dispatch (example_pkt kDisconnectReq ''other-host'' 7),
       FreePkt (example_pkt kDisconnectReq ''other-host'' 7),
       MutexUnlock],
      Returns ((pending 0 [])\<lparr>session_vec := [Some 1, Some 12]\<rparr>, example_heap)) \<and>
   handle_session_management marking_handlers example_nexus (marked example_queue5 []) =
     ([MutexLock,
       Dispatch (example_pkt kConnectReq ''other-host'' 7),
       FreePkt (example_pkt kConnectReq ''other-host'' 7),
       Dispatch (example_pkt kDisconnectResp ''host-a'' 9),
       FreePkt (example_pkt kDisconnectResp ''host-a'' 9),
       Dispatch (example_pkt kConnectResp ''host-b'' 3),
       FreePkt (example_pkt kConnectResp ''host-b'' 3),
       Dispatch (example_pkt kDisconnectReq ''other-host'' 7),
       FreePkt (example_pkt kDisconnectReq ''other-host'' 7),
       Dispatch (example_pkt kConnectReq ''host-b'' 4),
       FreePkt (example_pkt kConnectReq ''host-b'' 4),
       MutexUnlock],
      Returns
        ((pending 0 [])\<lparr>session_vec := [Some 1, Some 10, Some 13, Some 11, Some 12, Some 10]\<rparr>,
         example_heap))"
proof -
  note defs = marked_def pending_def example_rpc_def example_queue1_def example_queue5_def
    example_pkt_def example_nexus_def sender_is_self_def spec_dispatch_def
    marking_handlers_def mark_def
  have zero: "session_mgmt_ev_counter (sm_hook (fst (pending 0 example_queue5, example_heap))) = 0"
    by (simp add: pending_def)
  note t = drain_fifo [where st = "(pending 0 example_queue5, example_heap)"
      and H = marking_handlers and nx = example_nexus,
      THEN conjunct1, rule_format, OF zero]
  let ?s0 = "[marked [] []]"
  have pre0: "0 < session_mgmt_ev_counter (sm_hook (fst (marked [] []))) \<and>
    session_mgmt_pkt_list (sm_hook (fst (marked [] []))) = [] \<and>
    length ?s0 = Suc (length ([] :: SessionMgmtPkt list)) \<and> ?s0 ! 0 = marked [] [] \<and>
    (\<forall>i < length ([] :: SessionMgmtPkt list).
       \<not> sender_is_self example_nexus (fst (?s0 ! i)) ([] ! i) \<and>
       spec_dispatch marking_handlers ([] ! i) (?s0 ! i) = Returns (?s0 ! Suc i) \<and>
       session_mgmt_pkt_list (sm_hook (fst (?s0 ! Suc i))) = [])"
    by (simp add: marked_def pending_def)
  note t0 = drain_fifo [where st = "marked [] []" and pkts = "[]" and sts = ?s0
      and nx = example_nexus and H = marking_handlers,
      THEN conjunct2, rule_format, OF pre0]
  let ?s1 = "[marked example_queue1 [], marked example_queue1 [12]]"
  have pre1: "0 < session_mgmt_ev_counter (sm_hook (fst (marked example_queue1 []))) \<and>
    session_mgmt_pkt_list (sm_hook (fst (marked example_queue1 []))) = example_queue1 \<and>
    length ?s1 = Suc (length example_queue1) \<and> ?s1 ! 0 = marked example_queue1 [] \<and>
    (\<forall>i < length example_queue1.
       \<not> sender_is_self example_nexus (fst (?s1 ! i)) (example_queue1 ! i) \<and>
       spec_dispatch marking_handlers (example_queue1 ! i) (?s1 ! i) = Returns (?s1 ! Suc i) \<and>
       session_mgmt_pkt_list (sm_hook (fst (?s1 ! Suc i))) = example_queue1)"
    by (simp add: defs)
  note t1 = drain_fifo [where st = "marked example_queue1 []" and pkts = example_queue1
      and sts = ?s1 and nx = example_nexus and H = marking_handlers, THEN conjunct2, rule_format, OF pre1]
  let ?q = example_queue5
  let ?s5 = "[marked ?q [], marked ?q [10], marked ?q [10, 13], marked ?q [10, 13, 11],
              marked ?q [10, 13, 11, 12], marked ?q [10, 13, 11, 12, 10]]"
  have len5: "length ?q = Suc (Suc (Suc (Suc (Suc 0))))"
    by (simp add: example_queue5_def)
  have pre5: "0 < session_mgmt_ev_counter (sm_hook (fst (marked ?q []))) \<and>
    session_mgmt_pkt_list (sm_hook (fst (marked ?q []))) = ?q \<and>
    length ?s5 = Suc (length ?q) \<and> ?s5 ! 0 = marked ?q [] \<and>
    (\<forall>i < length ?q.
       \<not> sender_is_self example_nexus (fst (?s5 ! i)) (?q ! i) \<and>
       spec_dispatch marking_handlers (?q ! i) (?s5 ! i) = Returns (?s5 ! Suc i) \<and>
       session_mgmt_pkt_list (sm_hook (fst (?s5 ! Suc i))) = ?q)"
    unfolding len5 all_less_Suc by (simp add: defs)
  note t5 = drain_fifo [where st = "marked ?q []" and pkts = ?q and sts = ?s5
      and nx = example_nexus and H = marking_handlers,
      THEN conjunct2, rule_format, OF pre5]
  from t t0 t1 t5 show ?thesis
    by (simp add: marked_def pending_def example_rpc_def example_queue1_def
        example_queue5_def)
qed

text \<open>
  C5. When the loop has handled the packets before \<open>sm_pkt\<close> and \<open>sm_pkt\<close> names this
  endpoint as its sender (the client block of a request, the server block of a
  response: host name and application-thread id), \<open>handle_session_management\<close> aborts
  there: the trace is the trace of the packets before it, so the packet is neither
  handled nor freed. And with handlers that keep the application-thread id, a queue
  that holds such a packet never lets \<open>handle_session_management\<close> return.
\<close>

theorem self_addressed_packet_fatal:
  "(0 < session_mgmt_ev_counter (sm_hook (fst st)) \<and>
    session_mgmt_pkt_list (sm_hook (fst st)) = before @ sm_pkt # after \<and>
    sm_pkt_loop H nx before st = (tr, Returns st') \<and>
    sender_is_self nx (fst st') sm_pkt \<longrightarrow>
      handle_session_management H nx st = (MutexLock # tr, Fatal)) \<and>
   ((\<forall>k hd p s s'. handler_of H k = Some hd \<and> hd p s = Returns s' \<longrightarrow>
       rpc_app_tid (fst s') = rpc_app_tid (fst s)) \<and>
    sm_pkt \<in> set (session_mgmt_pkt_list (sm_hook (fst st))) \<and>
    sender_is_self nx (fst st) sm_pkt \<longrightarrow>
      (\<forall>x. snd (handle_session_management H nx st) \<noteq> Returns x))"
proof (intro conjI impI allI)
  assume a: "0 < session_mgmt_ev_counter (sm_hook (fst st)) \<and>
    session_mgmt_pkt_list (sm_hook (fst st)) = before @ sm_pkt # after \<and>
    sm_pkt_loop H nx before st = (tr, Returns st') \<and>
    sender_is_self nx (fst st') sm_pkt"
  then have loop: "sm_pkt_loop H nx before st = (tr, Returns st')"
    and self: "sender_is_self nx (fst st') sm_pkt" by simp_all
  from sm_pkt_loop_append [OF loop, of "sm_pkt # after"] self
  have "sm_pkt_loop H nx (before @ sm_pkt # after) st = (tr, Fatal)" by simp
  with a show "handle_session_management H nx st = (MutexLock # tr, Fatal)"
    by (simp add: handle_session_management_def)
next
  fix x
  assume a: "(\<forall>k hd p s s'. handler_of H k = Some hd \<and> hd p s = Returns s' \<longrightarrow>
       rpc_app_tid (fst s') = rpc_app_tid (fst s)) \<and>
    sm_pkt \<in> set (session_mgmt_pkt_list (sm_hook (fst st))) \<and>
    sender_is_self nx (fst st) sm_pkt"
  then have hs: "\<forall>k hd p s s'. handler_of H k = Some hd \<and> hd p s = Returns s' \<longrightarrow>
       rpc_app_tid (fst s') = rpc_app_tid (fst s)"
    and mem: "sm_pkt \<in> set (session_mgmt_pkt_list (sm_hook (fst st)))"
    and self: "sender_is_self nx (fst st) sm_pkt" by blast+
  have nr: "\<And>y. snd (sm_pkt_loop H nx (session_mgmt_pkt_list (sm_hook (fst st))) st) \<noteq> Returns y"
    using sm_pkt_loop_never_returns [OF hs mem self] .
  show "snd (handle_session_management H nx st) \<noteq> Returns x"
  proof (cases "sm_pkt_loop H nx (session_mgmt_pkt_list (sm_hook (fst st))) st")
    case (Pair tr r)
    with nr have r: "\<And>y. r \<noteq> Returns y" by (metis snd_conv)
    show ?thesis
    proof (cases r)
      case (Returns y)
      with r show ?thesis by blast
    qed (use Pair in \<open>simp_all add: handle_session_management_def\<close>)
  qed
qed

theorem self_addressed_packet_fatal_witness:
  "sender_is_self example_nexus (pending 1 [] ) (example_pkt kConnectReq ''host-a'' 3) \<and>
   sender_is_self example_nexus (pending 1 [] ) (example_pkt kDisconnectResp ''host-a'' 3) \<and>
   handle_session_management idle_handlers example_nexus
     (pending 1 (example_queue @ example_pkt kConnectReq ''host-a'' 3 # example_queue),
      example_heap) =
     ([MutexLock,
       Dispatch (example_pkt kConnectReq ''other-host'' 7),
       FreePkt (example_pkt kConnectReq ''other-host'' 7),
       Dispatch (example_pkt kDisconnectResp ''host-a'' 9),
       FreePkt (example_pkt kDisconnectResp ''host-a'' 9),
       Dispatch (example_pkt kConnectResp ''host-b'' 3),
       FreePkt (example_pkt kConnectResp ''host-b'' 3)], Fatal) \<and>
   (\<forall>x. snd (handle_session_management idle_handlers example_nexus
               (pending 1 (example_queue @ [example_pkt kDisconnectResp ''host-a'' 3]),
                example_heap)) \<noteq> Returns x)"
proof -
  let ?self = "example_pkt kConnectReq ''host-a'' 3"
  let ?st = "(pending 1 (example_queue @ ?self # example_queue), example_heap)"
  let ?tr = "[Dispatch (example_pkt kConnectReq ''other-host'' 7),
       FreePkt (example_pkt kConnectReq ''other-host'' 7),
       Dispatch (example_pkt kDisconnectResp ''host-a'' 9),
       FreePkt (example_pkt kDisconnectResp ''host-a'' 9),
       Dispatch (example_pkt kConnectResp ''host-b'' 3),
       FreePkt (example_pkt kConnectResp ''host-b'' 3)]"
  have s1: "sender_is_self example_nexus (pending 1 []) ?self"
    and s2: "sender_is_self example_nexus (pending 1 []) (example_pkt kDisconnectResp ''host-a'' 3)"
    by (simp_all add: example_simps)
  have pre: "0 < session_mgmt_ev_counter (sm_hook (fst ?st)) \<and>
    session_mgmt_pkt_list (sm_hook (fst ?st)) = example_queue @ ?self # example_queue \<and>
    sm_pkt_loop idle_handlers example_nexus example_queue ?st = (?tr, Returns ?st) \<and>
    sender_is_self example_nexus (fst ?st) ?self"
    by (simp add: example_simps idle_handlers_def)
  note t1 = self_addressed_packet_fatal
    [of ?st example_queue ?self example_queue idle_handlers example_nexus ?tr ?st,
      THEN conjunct1, rule_format, OF pre]
  let ?st2 = "(pending 1 (example_queue @ [example_pkt kDisconnectResp ''host-a'' 3]), example_heap)"
  have pre2: "(\<forall>k hd p s s'. handler_of idle_handlers k = Some hd \<and> hd p s = Returns s' \<longrightarrow>
       rpc_app_tid (fst s') = rpc_app_tid (fst s)) \<and>
    example_pkt kDisconnectResp ''host-a'' 3 \<in> set (session_mgmt_pkt_list (sm_hook (fst ?st2))) \<and>
    sender_is_self example_nexus (fst ?st2) (example_pkt kDisconnectResp ''host-a'' 3)"
    using idle_handlers_keep_app_tid by (simp add: example_simps)
  note t2 = self_addressed_packet_fatal
    [where st = ?st2 and sm_pkt = "example_pkt kDisconnectResp ''host-a'' 3"
       and H = idle_handlers and nx = example_nexus,
      THEN conjunct2, rule_format, OF pre2]
  from s1 s2 t1 t2 show ?thesis by simp
qed

subsection \<open>The datapath\<close>

text \<open>
  C10. \<open>send_request\<close> and \<open>send_response\<close> return the endpoint and the store of
  sessions they were given, for every session and buffer, and their trace is empty:
  they call nothing.
\<close>

theorem send_is_noop:
  "send_request st session buffer = ([], st) \<and> send_response st session buffer = ([], st)"
  by (simp add: send_request_def send_response_def unused_def)

end
